theory Spec2Isabelle
  imports Complex_Main "HOL-Library.AList"
begin

section \<open>The agricultural dashboard (app.py): data model\<close>

text \<open>
  The program is one script. Its numbers are Python floats and ints that are only ever
  compared with \<open><\<close> and \<open>>\<close>; such comparisons are exact, so the numbers are modelled
  as \<^typ>\<open>real\<close>. A subscript of a dict with a missing key raises \<open>KeyError\<close>, which
  the outermost \<open>try\<close> of the script turns into the error page: the model returns it as
  a value.
\<close>

datatype py_error = KeyError

text \<open>One entry of \<open>CROP_CONDITIONS\<close> (lines 10-47): each of them has the same seven keys.\<close>

record crop_info =
  temp_range :: "real \<times> real"
  soil_ph :: "real \<times> real"
  rainfall :: "real \<times> real"
  soil_moisture :: "real \<times> real"
  fertilizer_npk :: string
  growing_period :: string
  water_requirement :: string

text \<open>The dict itself, in insertion order, which is the order of \<open>CROP_CONDITIONS.keys()\<close>.\<close>

definition CROP_CONDITIONS :: "(string \<times> crop_info) list" where
  "CROP_CONDITIONS =
    [(''Rice'',
      \<lparr>temp_range = (20, 35), soil_ph = (5.5, 6.5), rainfall = (1000, 2000),
       soil_moisture = (0.6, 0.8),
       fertilizer_npk = ''N: 120kg/ha, P: 60kg/ha, K: 60kg/ha'',
       growing_period = ''90-120 days'',
       water_requirement = ''1200-1600mm''\<rparr>),
     (''Wheat'',
      \<lparr>temp_range = (15, 25), soil_ph = (6.0, 7.0), rainfall = (600, 1100),
       soil_moisture = (0.5, 0.7),
       fertilizer_npk = ''N: 100kg/ha, P: 50kg/ha, K: 50kg/ha'',
       growing_period = ''120-150 days'',
       water_requirement = ''450-650mm''\<rparr>),
     (''Corn'',
      \<lparr>temp_range = (18, 32), soil_ph = (5.8, 7.0), rainfall = (500, 800),
       soil_moisture = (0.5, 0.75),
       fertilizer_npk = ''N: 150kg/ha, P: 75kg/ha, K: 75kg/ha'',
       growing_period = ''90-120 days'',
       water_requirement = ''500-800mm''\<rparr>),
     (''Soybean'',
      \<lparr>temp_range = (20, 30), soil_ph = (6.0, 6.8), rainfall = (450, 700),
       soil_moisture = (0.5, 0.7),
       fertilizer_npk = ''N: 20kg/ha, P: 60kg/ha, K: 40kg/ha'',
       growing_period = ''100-120 days'',
       water_requirement = ''450-700mm''\<rparr>)]"

definition crop_keys :: "string list" where
  "crop_keys = map fst CROP_CONDITIONS"

text \<open>\<open>CROP_CONDITIONS[selected_crop]\<close> (line 117).\<close>

definition lookup_crop :: "string \<Rightarrow> py_error + crop_info" where
  "lookup_crop selected_crop =
     (case map_of CROP_CONDITIONS selected_crop of
        None \<Rightarrow> Inl KeyError
      | Some crop_info \<Rightarrow> Inr crop_info)"

section \<open>Farmer Advisor: the submitted form\<close>

text \<open>
  The seven sliders of the form (lines 137-182), named after the keys they get in
  \<open>input_data\<close> (lines 188-196).
\<close>

record prediction_input =
  Temperature_C :: real
  Rainfall_mm :: real
  Soil_pH :: real
  Soil_Moisture :: real
  Fertilizer_Usage_kg :: real
  Pesticide_Usage_kg :: real
  Sustainability_Score :: real

text \<open>A cell of the one-row data frame: a slider value (float) or a crop indicator (int).\<close>

datatype pyval = PyFloat real | PyInt int

text \<open>The dict literal of lines 188-196, as its items in insertion order.\<close>

definition base_input_data :: "prediction_input \<Rightarrow> (string \<times> pyval) list" where
  "base_input_data inp =
    [(''Temperature_C'', PyFloat (Temperature_C inp)),
     (''Rainfall_mm'', PyFloat (Rainfall_mm inp)),
     (''Soil_pH'', PyFloat (Soil_pH inp)),
     (''Soil_Moisture'', PyFloat (Soil_Moisture inp)),
     (''Fertilizer_Usage_kg'', PyFloat (Fertilizer_Usage_kg inp)),
     (''Pesticide_Usage_kg'', PyFloat (Pesticide_Usage_kg inp)),
     (''Sustainability_Score'', PyFloat (Sustainability_Score inp))]"

text \<open>The key \<open>f'Crop_Type_{crop}'\<close>.\<close>

definition crop_column :: "string \<Rightarrow> string" where
  "crop_column crop = ''Crop_Type_'' @ crop"

text \<open>
  The loop of lines 199-200: one assignment \<open>input_data[key] = 1 if crop == selected_crop else 0\<close>
  for each key of \<open>CROP_CONDITIONS\<close>, in order. An assignment to a dict replaces the value of
  a key that is there and appends a new key otherwise, which is \<^const>\<open>AList.update\<close>.
\<close>

definition input_data :: "string \<Rightarrow> prediction_input \<Rightarrow> (string \<times> pyval) list" where
  "input_data selected_crop inp =
     foldl (\<lambda>d crop. AList.update (crop_column crop)
                        (PyInt (if crop = selected_crop then 1 else 0)) d)
           (base_input_data inp) crop_keys"

text \<open>
  \<open>pd.DataFrame([input_data])[X.columns]\<close> (lines 203-204): the row with the training
  columns, in their order; a training column that the row does not have raises \<open>KeyError\<close>.
  The training columns come from the data set, which is not part of the program: they are
  a parameter.
\<close>

fun select_columns :: "(string \<times> 'v) list \<Rightarrow> string list \<Rightarrow> py_error + (string \<times> 'v) list" where
  "select_columns d [] = Inr []"
| "select_columns d (col # cols) =
     (case map_of d col of
        None \<Rightarrow> Inl KeyError
      | Some v \<Rightarrow>
          (case select_columns d cols of
             Inl e \<Rightarrow> Inl e
           | Inr row \<Rightarrow> Inr ((col, v) # row)))"

section \<open>Farmer Advisor: the recommendation blocks\<close>

text \<open>
  The chain \<open>a if selected_crop == 'Rice' else b if selected_crop == 'Wheat' else c if
  selected_crop == 'Corn' else d\<close> that picks most of the crop-specific text.
\<close>

definition crop_choice :: "string \<Rightarrow> 'a \<Rightarrow> 'a \<Rightarrow> 'a \<Rightarrow> 'a \<Rightarrow> 'a" where
  "crop_choice selected_crop rice wheat corn other =
     (if selected_crop = ''Rice'' then rice
      else if selected_crop = ''Wheat'' then wheat
      else if selected_crop = ''Corn'' then corn
      else other)"

text \<open>The two variants of the overall assessment (line 290).\<close>

datatype assessment = ExcellentGrowingConditions | SomeAreasThatNeedAttention

definition overall_assessment :: "real \<Rightarrow> real \<Rightarrow> assessment" where
  "overall_assessment prediction y_mean =
     (if prediction > y_mean then ExcellentGrowingConditions else SomeAreasThatNeedAttention)"

text \<open>
  What the page renders after a submission, one constructor for each call that writes a
  block, with the values its f-string interpolates. The fixed prose of a block is not
  repeated; the bullet lists that depend on the crop are lists of their items.
\<close>

datatype block =
    PredictedYield string real
  | OverallCropAssessment string real assessment
  | LowTemperaturePlan real string real real
  | HighTemperaturePlan real string string
  | SoilAcidityProgram real string int
  | AlkalineSoilProgram real string int
  | InsufficientRainfall real string string string string "string list"
  | GrowthStageManagement string "string list" "string list" "string list" "string list"
      string "string list"
  | NutrientManagementGuide string "string list" "string list" string string string

fun is_low_temperature :: "block \<Rightarrow> bool" where
  "is_low_temperature (LowTemperaturePlan _ _ _ _) = True"
| "is_low_temperature _ = False"

fun is_high_temperature :: "block \<Rightarrow> bool" where
  "is_high_temperature (HighTemperaturePlan _ _ _) = True"
| "is_high_temperature _ = False"

fun is_soil_acidity :: "block \<Rightarrow> bool" where
  "is_soil_acidity (SoilAcidityProgram _ _ _) = True"
| "is_soil_acidity _ = False"

fun is_alkaline_soil :: "block \<Rightarrow> bool" where
  "is_alkaline_soil (AlkalineSoilProgram _ _ _) = True"
| "is_alkaline_soil _ = False"

fun is_rainfall_block :: "block \<Rightarrow> bool" where
  "is_rainfall_block (InsufficientRainfall _ _ _ _ _ _) = True"
| "is_rainfall_block _ = False"

fun is_growth_stage :: "block \<Rightarrow> bool" where
  "is_growth_stage (GrowthStageManagement _ _ _ _ _ _ _) = True"
| "is_growth_stage _ = False"

fun is_nutrient_management :: "block \<Rightarrow> bool" where
  "is_nutrient_management (NutrientManagementGuide _ _ _ _ _ _) = True"
| "is_nutrient_management _ = False"

text \<open>The message variant that a block of the farmer page carries, if it has one.\<close>

fun message_variant :: "block \<Rightarrow> assessment option" where
  "message_variant (OverallCropAssessment _ _ a) = Some a"
| "message_variant _ = None"

text \<open>Lines 383-388.\<close>

definition planting_window_shift :: "string \<Rightarrow> string" where
  "planting_window_shift selected_crop =
     crop_choice selected_crop ''3-4 weeks'' ''4-5 weeks'' ''2-3 weeks'' ''3-4 weeks''"

text \<open>The temperature branch, lines 297-399.\<close>

definition temperature_section :: "string \<Rightarrow> crop_info \<Rightarrow> real \<Rightarrow> block list" where
  "temperature_section selected_crop crop_info temp =
     (if temp < fst (temp_range crop_info) then
        [LowTemperaturePlan temp selected_crop (fst (temp_range crop_info))
           (fst (soil_moisture crop_info))]
      else if temp > snd (temp_range crop_info) then
        [HighTemperaturePlan temp selected_crop (planting_window_shift selected_crop)]
      else [])"

text \<open>Line 411: \<open>2000 if selected_crop in ['Rice', 'Corn'] else 1500\<close>.\<close>

definition lime_dose :: "string \<Rightarrow> int" where
  "lime_dose selected_crop = (if selected_crop \<in> set [''Rice'', ''Corn''] then 2000 else 1500)"

text \<open>Line 453: \<open>300 if selected_crop in ['Rice', 'Soybean'] else 400\<close>.\<close>

definition sulfur_dose :: "string \<Rightarrow> int" where
  "sulfur_dose selected_crop = (if selected_crop \<in> set [''Rice'', ''Soybean''] then 300 else 400)"

text \<open>The soil pH branch, lines 402-491.\<close>

definition soil_ph_section :: "string \<Rightarrow> crop_info \<Rightarrow> real \<Rightarrow> block list" where
  "soil_ph_section selected_crop crop_info ph =
     (if ph < fst (soil_ph crop_info) then
        [SoilAcidityProgram ph selected_crop (lime_dose selected_crop)]
      else if ph > snd (soil_ph crop_info) then
        [AlkalineSoilProgram ph selected_crop (sulfur_dose selected_crop)]
      else [])"

text \<open>Lines 500-503.\<close>

definition emitter_spacing :: "string \<Rightarrow> string" where
  "emitter_spacing selected_crop =
     (if selected_crop \<in> set [''Rice'', ''Wheat''] then ''emitters every 30cm''
      else ''emitters every 45cm'')"

text \<open>Lines 504-507.\<close>

definition drip_pressure :: "string \<Rightarrow> string" where
  "drip_pressure selected_crop =
     (if selected_crop = ''Rice'' then ''1.5-2.0 bar'' else ''1.0-1.5 bar'')"

text \<open>Lines 511-516.\<close>

definition mulch :: "string \<Rightarrow> string" where
  "mulch selected_crop =
     crop_choice selected_crop ''rice straw'' ''wheat straw'' ''corn stalks'' ''organic mulch''"

text \<open>Lines 523-526.\<close>

definition critical_stages :: "string \<Rightarrow> string list" where
  "critical_stages selected_crop = crop_choice selected_crop
     [''- Tillering (20-25 DAS)'', ''- Panicle initiation (45-50 DAS)'', ''- Flowering (70-75 DAS)'']
     [''- Crown root initiation (20-25 DAS)'', ''- Tillering (35-45 DAS)'', ''- Grain filling (60-70 DAS)'']
     [''- V6-V8 stage (30-40 DAS)'', ''- Tasseling (55-65 DAS)'', ''- Grain filling (75-85 DAS)'']
     [''- V3-V4 stage (25-30 DAS)'', ''- Flowering (45-55 DAS)'', ''- Pod filling (70-80 DAS)'']"

text \<open>The rainfall branch, lines 494-528. It has no \<open>elif\<close>.\<close>

definition rainfall_section :: "string \<Rightarrow> crop_info \<Rightarrow> real \<Rightarrow> block list" where
  "rainfall_section selected_crop crop_info rain =
     (if rain < fst (rainfall crop_info) then
        [InsufficientRainfall rain selected_crop (emitter_spacing selected_crop)
           (drip_pressure selected_crop) (mulch selected_crop) (critical_stages selected_crop)]
      else [])"

text \<open>The five phases of the growth stage block. Lines 536-539.\<close>

definition land_preparation :: "string \<Rightarrow> string list" where
  "land_preparation selected_crop = crop_choice selected_crop
     [''Puddling to 15cm depth'', ''Level field with laser leveler'', ''Pre-soak seeds for 24 hours'', ''Seed rate: 40-50 kg/ha'']
     [''Deep plowing to 20cm'', ''Fine seedbed preparation'', ''Seed treatment with fungicide'', ''Seed rate: 100-120 kg/ha'']
     [''Primary tillage 25-30cm deep'', ''Create raised beds 75cm apart'', ''Seed treatment with metalaxyl'', ''Seed rate: 20-25 kg/ha'']
     [''Minimum tillage system'', ''Inoculate seeds with Rhizobium'', ''Plant 3-4cm deep'', ''Seed rate: 65-75 kg/ha'']"

text \<open>Lines 544-547.\<close>

definition early_vegetative :: "string \<Rightarrow> string list" where
  "early_vegetative selected_crop = crop_choice selected_crop
     [''Maintain 2-5cm water level'', ''First N split (50 kg/ha)'', ''Monitor for leaf folder'', ''Start weed management'']
     [''First irrigation at CRI stage'', ''Top dress N (40 kg/ha)'', ''Watch for aphids'', ''Control broad-leaf weeds'']
     [''V4-V8 stage management'', ''Side-dress N (60 kg/ha)'', ''Scout for fall armyworm'', ''Inter-row cultivation'']
     [''Maintain optimal moisture'', ''Apply P and K if needed'', ''Monitor for pod borers'', ''Control early weeds'']"

text \<open>Lines 552-555.\<close>

definition mid_season :: "string \<Rightarrow> string list" where
  "mid_season selected_crop = crop_choice selected_crop
     [''Panicle initiation stage'', ''Second N split (30 kg/ha)'', ''Monitor for blast disease'', ''Maintain water depth'']
     [''Boot to heading stage'', ''Final N application'', ''Watch for rust/smut'', ''Flag leaf protection'']
     [''Tasseling and silking'', ''Foliar spray if needed'', ''Irrigation critical'', ''Disease monitoring'']
     [''Flowering stage'', ''Moisture critical'', ''Disease scouting'', ''Beneficial insect conservation'']"

text \<open>Lines 560-563.\<close>

definition reproductive :: "string \<Rightarrow> string list" where
  "reproductive selected_crop = crop_choice selected_crop
     [''Grain filling period'', ''Maintain water level'', ''Monitor for grain discoloration'', ''Bird control measures'']
     [''Grain development'', ''Moisture stress sensitive'', ''Watch for head scab'', ''Plan harvest timing'']
     [''Kernel filling stage'', ''Maintain soil moisture'', ''Stalk rot monitoring'', ''Plan harvesting'']
     [''Pod filling stage'', ''Maintain soil moisture'', ''Pod disease monitoring'', ''Plan harvest timing'']"

text \<open>Lines 568-571.\<close>

definition maturity_harvest :: "string \<Rightarrow> string list" where
  "maturity_harvest selected_crop = crop_choice selected_crop
     [''Drain field 10 days before harvest'', ''Check grain moisture (20-22%)'', ''Harvest at 80% mature grains'', ''Proper drying to 14%'']
     [''Monitor grain moisture'', ''Harvest at 12-14% moisture'', ''Proper storage preparation'', ''Quality assessment'']
     [''Monitor black layer formation'', ''Harvest at 20-25% moisture'', ''Proper drying essential'', ''Storage preparation'']
     [''Monitor pod dryness'', ''Harvest at 13-15% moisture'', ''Careful threshing'', ''Proper storage conditions'']"

text \<open>The growth stage block, lines 531-573: written with no condition.\<close>

definition growth_stage_section :: "string \<Rightarrow> crop_info \<Rightarrow> block" where
  "growth_stage_section selected_crop crop_info =
     GrowthStageManagement selected_crop (land_preparation selected_crop)
       (early_vegetative selected_crop) (mid_season selected_crop) (reproductive selected_crop)
       (growing_period crop_info) (maturity_harvest selected_crop)"

text \<open>The parts of the nutrient block. Lines 581-584.\<close>

definition base_fertilizer :: "string \<Rightarrow> string list" where
  "base_fertilizer selected_crop = crop_choice selected_crop
     [''N: 40kg/ha at planting'', ''P: All 60kg/ha as basal'', ''K: 40kg/ha at planting'', ''Zn: 25kg/ha ZnSO4'']
     [''N: 30kg/ha at sowing'', ''P: All 50kg/ha as basal'', ''K: All 50kg/ha as basal'', ''S: 20kg/ha'']
     [''N: 60kg/ha at planting'', ''P: All 75kg/ha as basal'', ''K: 50kg/ha split'', ''Zn: 10kg/ha'']
     [''N: Starter dose only'', ''P: All 60kg/ha as basal'', ''K: All 40kg/ha as basal'', ''Mo: 2kg/ha'']"

text \<open>Lines 589-592.\<close>

definition growth_stage_nutrients :: "string \<Rightarrow> string list" where
  "growth_stage_nutrients selected_crop = crop_choice selected_crop
     [''Tillering: 40kg N/ha'', ''Panicle: 40kg N/ha + 20kg K/ha'', ''Heading: Foliar K if needed'']
     [''Tillering: 35kg N/ha'', ''Stem extension: 35kg N/ha'', ''Pre-heading: Foliar micro-nutrients'']
     [''V6: 45kg N/ha'', ''V12: 45kg N/ha + 25kg K/ha'', ''Tasseling: Foliar Zn if needed'']
     [''V4: 10kg N/ha if needed'', ''R1: 20kg K/ha'', ''R3: Foliar nutrients if needed'']"

text \<open>Lines 596-601.\<close>

definition nitrogen_deficiency :: "string \<Rightarrow> string" where
  "nitrogen_deficiency selected_crop = crop_choice selected_crop
     ''Yellowing of older leaves - Topdress 20kg N/ha''
     ''Pale green leaves - Apply 30kg N/ha''
     ''V-shaped yellowing - Apply 40kg N/ha''
     ''Light green plants - Apply 15kg N/ha''"

text \<open>Lines 602-607.\<close>

definition phosphorus_deficiency :: "string \<Rightarrow> string" where
  "phosphorus_deficiency selected_crop = crop_choice selected_crop
     ''Purple leaf edges - Foliar DAP 2%''
     ''Dark green-purple leaves - Foliar P 2%''
     ''Purple stem/leaves - Foliar P 2.5%''
     ''Dark green-stunted - Foliar P 2%''"

text \<open>Lines 608-613.\<close>

definition potassium_deficiency :: "string \<Rightarrow> string" where
  "potassium_deficiency selected_crop = crop_choice selected_crop
     ''Leaf tip burning - Apply 20kg K/ha''
     ''Yellow leaf margins - Apply 25kg K/ha''
     ''Leaf edge necrosis - Apply 30kg K/ha''
     ''Yellow leaf edges - Apply 20kg K/ha''"

text \<open>The nutrient block, lines 576-614: written with no condition.\<close>

definition nutrient_section :: "string \<Rightarrow> block" where
  "nutrient_section selected_crop =
     NutrientManagementGuide selected_crop (base_fertilizer selected_crop)
       (growth_stage_nutrients selected_crop) (nitrogen_deficiency selected_crop)
       (phosphorus_deficiency selected_crop) (potassium_deficiency selected_crop)"

text \<open>
  Everything rendered once the prediction is there (lines 208-614), in the order of the
  script. The style sheet and the headings, which are the same in every run, are left out.
\<close>

definition farmer_report :: "string \<Rightarrow> crop_info \<Rightarrow> prediction_input \<Rightarrow> real \<Rightarrow> real \<Rightarrow> block list" where
  "farmer_report selected_crop crop_info inp prediction y_mean =
     [PredictedYield selected_crop prediction,
      OverallCropAssessment selected_crop prediction (overall_assessment prediction y_mean)]
     @ temperature_section selected_crop crop_info (Temperature_C inp)
     @ soil_ph_section selected_crop crop_info (Soil_pH inp)
     @ rainfall_section selected_crop crop_info (Rainfall_mm inp)
     @ [growth_stage_section selected_crop crop_info, nutrient_section selected_crop]"

text \<open>
  The page for a submitted form (lines 116-117 and 186-614). The fitted model, the
  training columns \<open>X.columns\<close> and the mean \<open>y.mean()\<close> of the training target come
  from the data set and the regressor: they are parameters.
\<close>

definition farmer_advisor ::
  "((string \<times> pyval) list \<Rightarrow> real) \<Rightarrow> string list \<Rightarrow> real \<Rightarrow> string \<Rightarrow> prediction_input
     \<Rightarrow> py_error + block list" where
  "farmer_advisor predict X_columns y_mean selected_crop inp =
     (case lookup_crop selected_crop of
        Inl e \<Rightarrow> Inl e
      | Inr crop_info \<Rightarrow>
          (case select_columns (input_data selected_crop inp) X_columns of
             Inl e \<Rightarrow> Inl e
           | Inr input_df \<Rightarrow>
               Inr (farmer_report selected_crop crop_info inp (predict input_df) y_mean)))"

section \<open>Market Researcher: the submitted form\<close>

text \<open>
  What the page renders after a submission (lines 739-880). The score is
  \<open>prediction / y.mean() * 100\<close>, a float division of numpy that gives no real number
  when the mean is zero.
\<close>

datatype market_banner = ShortTermStrategy | GrowthStrategy

datatype market_block =
    PredictedMarketOutcome real
  | MarketPosition market_banner "real option"
  | HighPriceRisk
  | MarketRiskAlert
  | EconomicRiskFactors
  | StrategicActionPlan

text \<open>The banner that a block of the market page carries, if it has one.\<close>

fun banner_variant :: "market_block \<Rightarrow> market_banner option" where
  "banner_variant (MarketPosition b _) = Some b"
| "banner_variant _ = None"

definition market_score :: "real \<Rightarrow> real \<Rightarrow> real option" where
  "market_score prediction y_mean =
     (if y_mean = 0 then None else Some (prediction / y_mean * 100))"

text \<open>
  Lines 751-790: the warning with the short-term strategy under \<open>if prediction < y.mean()\<close>,
  the success box with the growth strategy under \<open>else\<close>; both show the score.
\<close>

definition market_position :: "real \<Rightarrow> real \<Rightarrow> market_banner" where
  "market_position prediction y_mean =
     (if prediction < y_mean then ShortTermStrategy else GrowthStrategy)"

text \<open>
  \<open>sum(1 for col, val in data.items() if val < X[col].mean())\<close> (lines 796, 811, 826); the
  column means of the training features are a parameter.
\<close>

definition risk_count :: "(string \<Rightarrow> real) \<Rightarrow> (string \<times> real) list \<Rightarrow> int" where
  "risk_count X_mean data = sum_list [1. (col, val) \<leftarrow> data, val < X_mean col]"

text \<open>\<open>risk > len(data) / 2\<close> (lines 799, 814, 829): \<open>/\<close> is the division of floats.\<close>

definition risk_detected :: "(string \<Rightarrow> real) \<Rightarrow> (string \<times> real) list \<Rightarrow> bool" where
  "risk_detected X_mean data \<longleftrightarrow> real_of_int (risk_count X_mean data) > real (length data) / 2"

text \<open>Lines 795-838: three alerts, each under its own \<open>if\<close>.\<close>

definition risk_assessment ::
  "(string \<Rightarrow> real) \<Rightarrow> (string \<times> real) list \<Rightarrow> (string \<times> real) list \<Rightarrow> (string \<times> real) list
     \<Rightarrow> market_block list" where
  "risk_assessment X_mean price_data market_data economic_data =
     (if risk_detected X_mean price_data then [HighPriceRisk] else [])
     @ (if risk_detected X_mean market_data then [MarketRiskAlert] else [])
     @ (if risk_detected X_mean economic_data then [EconomicRiskFactors] else [])"

definition market_report ::
  "real \<Rightarrow> real \<Rightarrow> (string \<Rightarrow> real) \<Rightarrow> (string \<times> real) list \<Rightarrow> (string \<times> real) list
     \<Rightarrow> (string \<times> real) list \<Rightarrow> market_block list" where
  "market_report prediction y_mean X_mean price_data market_data economic_data =
     [PredictedMarketOutcome prediction,
      MarketPosition (market_position prediction y_mean) (market_score prediction y_mean)]
     @ risk_assessment X_mean price_data market_data economic_data
     @ [StrategicActionPlan]"

text \<open>\<open>{**a, **b}\<close>: the items of \<open>b\<close> assigned into \<open>a\<close>, in order.\<close>

definition dict_merge :: "(string \<times> 'v) list \<Rightarrow> (string \<times> 'v) list \<Rightarrow> (string \<times> 'v) list" where
  "dict_merge a b = foldl (\<lambda>d (k, v). AList.update k v d) a b"

text \<open>
  The page for a submitted form (lines 728-880). The four dicts hold the slider values of
  the four groups of columns, as the form filled them.
\<close>

definition market_researcher ::
  "((string \<times> real) list \<Rightarrow> real) \<Rightarrow> string list \<Rightarrow> (string \<Rightarrow> real) \<Rightarrow> real
     \<Rightarrow> (string \<times> real) list \<Rightarrow> (string \<times> real) list \<Rightarrow> (string \<times> real) list
     \<Rightarrow> (string \<times> real) list \<Rightarrow> py_error + market_block list" where
  "market_researcher predict X_columns X_mean y_mean price_data market_data economic_data other_data =
     (case select_columns
             (dict_merge (dict_merge (dict_merge price_data market_data) economic_data) other_data)
             X_columns of
        Inl e \<Rightarrow> Inl e
      | Inr input_df \<Rightarrow>
          Inr (market_report (predict input_df) y_mean X_mean price_data market_data economic_data))"

section \<open>Notions of the specification\<close>

text \<open>
  The specification speaks of the side of the training target's mean on which a prediction
  stands. This definition follows its words, not the code.
\<close>

datatype side = BelowMean | AtMean | AboveMean

definition side_of_mean :: "real \<Rightarrow> real \<Rightarrow> side" where
  "side_of_mean prediction y_mean =
     (if prediction < y_mean then BelowMean
      else if prediction = y_mean then AtMean
      else AboveMean)"

text \<open>
  The specification speaks of the values of a column group that are strictly below the mean
  of their training column. This definition follows its words, not the code.
\<close>

definition values_below_mean :: "(string \<Rightarrow> real) \<Rightarrow> (string \<times> real) list \<Rightarrow> (string \<times> real) list" where
  "values_below_mean X_mean data = filter (\<lambda>(col, val). val < X_mean col) data"

section \<open>Facts about the condition table\<close>

lemma crop_keys_eq: "crop_keys = [''Rice'', ''Wheat'', ''Corn'', ''Soybean'']"
  by (simp add: crop_keys_def CROP_CONDITIONS_def)

lemma crop_keys_cases:
  assumes "c \<in> set crop_keys"
  obtains "c = ''Rice''" | "c = ''Wheat''" | "c = ''Corn''" | "c = ''Soybean''"
  using assms unfolding crop_keys_eq by auto

lemma lookup_crop_Rice:
  "lookup_crop ''Rice'' = Inr (snd (CROP_CONDITIONS ! 0))"
  by (simp add: lookup_crop_def CROP_CONDITIONS_def)

lemma lookup_crop_Wheat:
  "lookup_crop ''Wheat'' = Inr (snd (CROP_CONDITIONS ! 1))"
  by (simp add: lookup_crop_def CROP_CONDITIONS_def)

lemma lookup_crop_Corn:
  "lookup_crop ''Corn'' = Inr (snd (CROP_CONDITIONS ! 2))"
  by (simp add: lookup_crop_def CROP_CONDITIONS_def)

lemma lookup_crop_Soybean:
  "lookup_crop ''Soybean'' = Inr (snd (CROP_CONDITIONS ! 3))"
  by (simp add: lookup_crop_def CROP_CONDITIONS_def)

lemma lookup_crop_unknown:
  assumes "c \<notin> set crop_keys"
  shows "lookup_crop c = Inl KeyError"
proof -
  have "map_of CROP_CONDITIONS c = None"
    using assms by (simp add: crop_keys_def map_of_eq_None_iff)
  then show ?thesis by (simp add: lookup_crop_def)
qed

lemma lookup_crop_Inr_keys:
  assumes "lookup_crop c = Inr info"
  shows "c \<in> set crop_keys"
  using assms lookup_crop_unknown by fastforce

lemma lookup_crop_supported:
  assumes "c \<in> set crop_keys"
  shows "\<exists>info. lookup_crop c = Inr info"
  using assms
  by (cases rule: crop_keys_cases)
     (simp_all add: lookup_crop_Rice lookup_crop_Wheat lookup_crop_Corn lookup_crop_Soybean)

lemma lookup_crop_table:
  assumes "lookup_crop c = Inr info"
  shows "(c, info) \<in> set CROP_CONDITIONS"
  using assms by (auto simp: lookup_crop_def split: option.splits dest: map_of_SomeD)

lemma crop_ranges_ordered:
  assumes "lookup_crop c = Inr info"
  shows "fst (temp_range info) < snd (temp_range info)"
    and "fst (soil_ph info) < snd (soil_ph info)"
    and "fst (rainfall info) < snd (rainfall info)"
    and "fst (soil_moisture info) < snd (soil_moisture info)"
  using lookup_crop_table [OF assms] by (auto simp: CROP_CONDITIONS_def)

section \<open>Facts about the two pages\<close>

lemma select_columns_total:
  assumes "set cols \<subseteq> fst ` set d"
  shows "\<exists>row. select_columns d cols = Inr row \<and> map fst row = cols
           \<and> (\<forall>c \<in> set cols. map_of row c = map_of d c)"
  using assms
proof (induction cols)
  case Nil
  then show ?case by simp
next
  case (Cons col cols)
  then obtain row where row: "select_columns d cols = Inr row" "map fst row = cols"
      "\<forall>c \<in> set cols. map_of row c = map_of d c"
    by auto
  from Cons.prems have "col \<in> fst ` set d" by simp
  then obtain v where v: "map_of d col = Some v"
    by (metis domD dom_map_of_conv_image_fst)
  show ?case using row v by auto
qed

lemma input_data_keys:
  "map fst (input_data selected_crop inp) =
     [''Temperature_C'', ''Rainfall_mm'', ''Soil_pH'', ''Soil_Moisture'', ''Fertilizer_Usage_kg'',
      ''Pesticide_Usage_kg'', ''Sustainability_Score'', ''Crop_Type_Rice'', ''Crop_Type_Wheat'',
      ''Crop_Type_Corn'', ''Crop_Type_Soybean'']"
  by (simp add: input_data_def crop_keys_eq base_input_data_def crop_column_def)

lemma input_data_crop:
  assumes "crop \<in> set crop_keys"
  shows "map_of (input_data selected_crop inp) (crop_column crop) =
           Some (PyInt (if crop = selected_crop then 1 else 0))"
  using assms
  by (auto simp add: input_data_def crop_keys_eq base_input_data_def crop_column_def)

lemma risk_count_length:
  "risk_count X_mean data = int (length (values_below_mean X_mean data))"
  unfolding risk_count_def values_below_mean_def
  by (induction data) auto

lemma risk_detected_iff:
  "risk_detected X_mean data \<longleftrightarrow> length data < 2 * length (values_below_mean X_mean data)"
  unfolding risk_detected_def risk_count_length
  by (auto simp: field_simps)

lemma farmer_advisor_renders:
  assumes "lookup_crop selected_crop = Inr crop_info"
    and "set X_columns \<subseteq> fst ` set (input_data selected_crop inp)"
  shows "\<exists>input_df. select_columns (input_data selected_crop inp) X_columns = Inr input_df
           \<and> farmer_advisor predict X_columns y_mean selected_crop inp =
               Inr (farmer_report selected_crop crop_info inp (predict input_df) y_mean)"
proof -
  from select_columns_total [OF assms(2)]
  obtain input_df where "select_columns (input_data selected_crop inp) X_columns = Inr input_df"
    by blast
  then show ?thesis using assms(1) by (simp add: farmer_advisor_def)
qed

lemma farmer_advisor_Inr:
  assumes "farmer_advisor predict X_columns y_mean selected_crop inp = Inr bundle"
  shows "\<exists>crop_info input_df. lookup_crop selected_crop = Inr crop_info
           \<and> select_columns (input_data selected_crop inp) X_columns = Inr input_df
           \<and> bundle = farmer_report selected_crop crop_info inp (predict input_df) y_mean"
  using assms by (auto simp: farmer_advisor_def split: sum.splits)

lemma filter_low_temperature:
  "filter is_low_temperature (farmer_report c info inp p m) =
     filter is_low_temperature (temperature_section c info (Temperature_C inp))"
  by (simp add: farmer_report_def soil_ph_section_def rainfall_section_def
      growth_stage_section_def nutrient_section_def)

lemma filter_high_temperature:
  "filter is_high_temperature (farmer_report c info inp p m) =
     filter is_high_temperature (temperature_section c info (Temperature_C inp))"
  by (simp add: farmer_report_def soil_ph_section_def rainfall_section_def
      growth_stage_section_def nutrient_section_def)

lemma filter_soil_acidity:
  "filter is_soil_acidity (farmer_report c info inp p m) = 
     filter is_soil_acidity (soil_ph_section c info (Soil_pH inp))"
  by (simp add: farmer_report_def temperature_section_def rainfall_section_def
      growth_stage_section_def nutrient_section_def)

lemma filter_alkaline_soil:
  "filter is_alkaline_soil (farmer_report c info inp p m) = 
     filter is_alkaline_soil (soil_ph_section c info (Soil_pH inp))"
  by (simp add: farmer_report_def temperature_section_def rainfall_section_def
      growth_stage_section_def nutrient_section_def)

lemma filter_rainfall_block:
  "filter is_rainfall_block (farmer_report c info inp p m) = rainfall_section c info (Rainfall_mm inp)"
  by (simp add: farmer_report_def temperature_section_def soil_ph_section_def rainfall_section_def
      growth_stage_section_def nutrient_section_def)

lemma filter_growth_stage:
  "filter is_growth_stage (farmer_report c info inp p m) = [growth_stage_section c info]"
  by (simp add: farmer_report_def temperature_section_def soil_ph_section_def rainfall_section_def
      growth_stage_section_def nutrient_section_def)

lemma filter_nutrient_management:
  "filter is_nutrient_management (farmer_report c info inp p m) = [nutrient_section c]"
  by (simp add: farmer_report_def temperature_section_def soil_ph_section_def rainfall_section_def
      growth_stage_section_def nutrient_section_def)

lemma variants_farmer_report:
  "List.map_filter message_variant (farmer_report c info inp p m) = [overall_assessment p m]"
  by (simp add: farmer_report_def temperature_section_def soil_ph_section_def rainfall_section_def
      growth_stage_section_def nutrient_section_def List.map_filter_def)

lemma variants_market_report:
  "List.map_filter banner_variant (market_report p m X_mean pd md ed) = [market_position p m]"
  by (simp add: market_report_def risk_assessment_def List.map_filter_def)

lemma fires_low_temperature:
  "list_ex is_low_temperature (farmer_report c info inp p m) \<longleftrightarrow>
     Temperature_C inp < fst (temp_range info)"
  by (simp add: farmer_report_def temperature_section_def soil_ph_section_def
      rainfall_section_def growth_stage_section_def nutrient_section_def)

lemma fires_high_temperature:
  "list_ex is_high_temperature (farmer_report c info inp p m) \<longleftrightarrow>
     \<not> Temperature_C inp < fst (temp_range info) \<and> Temperature_C inp > snd (temp_range info)"
  by (simp add: farmer_report_def temperature_section_def soil_ph_section_def
      rainfall_section_def growth_stage_section_def nutrient_section_def)

lemma fires_soil_acidity:
  "list_ex is_soil_acidity (farmer_report c info inp p m) \<longleftrightarrow>
     Soil_pH inp < fst (soil_ph info)"
  by (simp add: farmer_report_def temperature_section_def soil_ph_section_def
      rainfall_section_def growth_stage_section_def nutrient_section_def)

lemma fires_alkaline_soil:
  "list_ex is_alkaline_soil (farmer_report c info inp p m) \<longleftrightarrow>
     \<not> Soil_pH inp < fst (soil_ph info) \<and> Soil_pH inp > snd (soil_ph info)"
  by (simp add: farmer_report_def temperature_section_def soil_ph_section_def
      rainfall_section_def growth_stage_section_def nutrient_section_def)

section \<open>The recommendation blocks of the farmer page\<close>

text \<open>
  C1. For a supported crop and any submitted values, the low-temperature block is rendered
  and the high-temperature block is not when the temperature is strictly below the minimum
  of the crop's range; the high one is rendered and the low one is not when it is strictly
  above the maximum; neither is rendered within the range, bounds included. The soil pH
  blocks (acidity, alkaline) follow the same rule against the soil pH range.
\<close>

theorem temperature_and_soil_ph_boundaries:
  assumes "lookup_crop selected_crop = Inr crop_info"
    and "set X_columns \<subseteq> fst ` set (input_data selected_crop inp)"
  shows "\<exists>bundle. farmer_advisor predict X_columns y_mean selected_crop inp = Inr bundle
    \<and> (Temperature_C inp < fst (temp_range crop_info) \<longrightarrow>
          list_ex is_low_temperature bundle \<and> \<not> list_ex is_high_temperature bundle)
    \<and> (snd (temp_range crop_info) < Temperature_C inp \<longrightarrow>
          list_ex is_high_temperature bundle \<and> \<not> list_ex is_low_temperature bundle)
    \<and> (fst (temp_range crop_info) \<le> Temperature_C inp
          \<and> Temperature_C inp \<le> snd (temp_range crop_info) \<longrightarrow>
          \<not> list_ex is_low_temperature bundle \<and> \<not> list_ex is_high_temperature bundle)
    \<and> (Soil_pH inp < fst (soil_ph crop_info) \<longrightarrow>
          list_ex is_soil_acidity bundle \<and> \<not> list_ex is_alkaline_soil bundle)
    \<and> (snd (soil_ph crop_info) < Soil_pH inp \<longrightarrow>
          list_ex is_alkaline_soil bundle \<and> \<not> list_ex is_soil_acidity bundle)
    \<and> (fst (soil_ph crop_info) \<le> Soil_pH inp \<and> Soil_pH inp \<le> snd (soil_ph crop_info) \<longrightarrow>
          \<not> list_ex is_soil_acidity bundle \<and> \<not> list_ex is_alkaline_soil bundle)
    \<and> \<not> (list_ex is_low_temperature bundle \<and> list_ex is_high_temperature bundle)
    \<and> \<not> (list_ex is_soil_acidity bundle \<and> list_ex is_alkaline_soil bundle)"
proof -
  from farmer_advisor_renders [OF assms]
  obtain input_df where run:
    "farmer_advisor predict X_columns y_mean selected_crop inp =
       Inr (farmer_report selected_crop crop_info inp (predict input_df) y_mean)"
    by blast
  have t: "fst (temp_range crop_info) < snd (temp_range crop_info)"
    and s: "fst (soil_ph crop_info) < snd (soil_ph crop_info)"
    using crop_ranges_ordered [OF assms(1)] by simp_all
  show ?thesis
    unfolding run using t s
    by (simp add: fires_low_temperature fires_high_temperature fires_soil_acidity
        fires_alkaline_soil)
qed

theorem temperature_and_soil_ph_boundaries_witness:
  "(\<exists>info bundle. lookup_crop ''Rice'' = Inr info
      \<and> set [''Temperature_C'', ''Soil_pH'', ''Crop_Type_Rice'']
          \<subseteq> fst ` set (input_data ''Rice''
               \<lparr>Temperature_C = 15, Rainfall_mm = 1200, Soil_pH = 5, Soil_Moisture = 0.7,
                Fertilizer_Usage_kg = 100, Pesticide_Usage_kg = 5, Sustainability_Score = 7\<rparr>)
      \<and> farmer_advisor (\<lambda>row. 5) [''Temperature_C'', ''Soil_pH'', ''Crop_Type_Rice''] 4 ''Rice''
           \<lparr>Temperature_C = 15, Rainfall_mm = 1200, Soil_pH = 5, Soil_Moisture = 0.7,
            Fertilizer_Usage_kg = 100, Pesticide_Usage_kg = 5, Sustainability_Score = 7\<rparr>
           = Inr bundle
      \<and> list_ex is_low_temperature bundle \<and> \<not> list_ex is_high_temperature bundle
      \<and> list_ex is_soil_acidity bundle \<and> \<not> list_ex is_alkaline_soil bundle)
   \<and> (\<exists>info bundle. lookup_crop ''Rice'' = Inr info
      \<and> farmer_advisor (\<lambda>row. 5) [''Temperature_C'', ''Soil_pH'', ''Crop_Type_Rice''] 4 ''Rice''
           \<lparr>Temperature_C = 40, Rainfall_mm = 1200, Soil_pH = 7, Soil_Moisture = 0.7,
            Fertilizer_Usage_kg = 100, Pesticide_Usage_kg = 5, Sustainability_Score = 7\<rparr>
           = Inr bundle
      \<and> list_ex is_high_temperature bundle \<and> \<not> list_ex is_low_temperature bundle
      \<and> list_ex is_alkaline_soil bundle \<and> \<not> list_ex is_soil_acidity bundle)
   \<and> (\<exists>info bundle. lookup_crop ''Rice'' = Inr info
      \<and> farmer_advisor (\<lambda>row. 5) [''Temperature_C'', ''Soil_pH'', ''Crop_Type_Rice''] 4 ''Rice''
           \<lparr>Temperature_C = 20, Rainfall_mm = 1200, Soil_pH = 6.5, Soil_Moisture = 0.7,
            Fertilizer_Usage_kg = 100, Pesticide_Usage_kg = 5, Sustainability_Score = 7\<rparr>
           = Inr bundle
      \<and> \<not> list_ex is_high_temperature bundle \<and> \<not> list_ex is_low_temperature bundle
      \<and> \<not> list_ex is_alkaline_soil bundle \<and> \<not> list_ex is_soil_acidity bundle)"
proof -
  let ?cols = "[''Temperature_C'', ''Soil_pH'', ''Crop_Type_Rice'']"
  let ?info = "snd (CROP_CONDITIONS ! 0)"
  have l: "lookup_crop ''Rice'' = Inr ?info" by (rule lookup_crop_Rice)
  have c: "set ?cols \<subseteq> fst ` set (input_data ''Rice'' inp)" for inp
    using input_data_keys [of "''Rice''" inp] by (simp flip: set_map)
  have r: "temp_range ?info = (20, 35)" "soil_ph ?info = (5.5, 6.5)"
    by (simp_all add: CROP_CONDITIONS_def)
  show ?thesis
    using l c r
      temperature_and_soil_ph_boundaries [OF l c, where predict = "\<lambda>row. 5" and y_mean = 4 and inp =
        "\<lparr>Temperature_C = 15, Rainfall_mm = 1200, Soil_pH = 5, Soil_Moisture = 0.7,
          Fertilizer_Usage_kg = 100, Pesticide_Usage_kg = 5, Sustainability_Score = 7\<rparr>"]
      temperature_and_soil_ph_boundaries [OF l c, where predict = "\<lambda>row. 5" and y_mean = 4 and inp =
        "\<lparr>Temperature_C = 40, Rainfall_mm = 1200, Soil_pH = 7, Soil_Moisture = 0.7,
          Fertilizer_Usage_kg = 100, Pesticide_Usage_kg = 5, Sustainability_Score = 7\<rparr>"]
      temperature_and_soil_ph_boundaries [OF l c, where predict = "\<lambda>row. 5" and y_mean = 4 and inp =
        "\<lparr>Temperature_C = 20, Rainfall_mm = 1200, Soil_pH = 6.5, Soil_Moisture = 0.7,
          Fertilizer_Usage_kg = 100, Pesticide_Usage_kg = 5, Sustainability_Score = 7\<rparr>"]
    by simp blast
qed

text \<open>
  C2. For a supported crop and any submitted values, the rainfall section renders its only
  block, the one for insufficient rainfall, exactly when the rainfall is strictly below the
  minimum of the crop's rainfall range; at or above the minimum, also strictly above the
  maximum of the range, no rainfall block is rendered.
\<close>

theorem rainfall_block_only_below_minimum:
  assumes "lookup_crop selected_crop = Inr crop_info"
    and "set X_columns \<subseteq> fst ` set (input_data selected_crop inp)"
  shows "\<exists>bundle. farmer_advisor predict X_columns y_mean selected_crop inp = Inr bundle
    \<and> (list_ex is_rainfall_block bundle \<longleftrightarrow> Rainfall_mm inp < fst (rainfall crop_info))
    \<and> (Rainfall_mm inp < fst (rainfall crop_info) \<longrightarrow>
          length (filter is_rainfall_block bundle) = 1)
    \<and> (fst (rainfall crop_info) \<le> Rainfall_mm inp \<longrightarrow> filter is_rainfall_block bundle = [])
    \<and> (snd (rainfall crop_info) < Rainfall_mm inp \<longrightarrow> filter is_rainfall_block bundle = [])"
proof -
  from farmer_advisor_renders [OF assms]
  obtain input_df where run:
    "farmer_advisor predict X_columns y_mean selected_crop inp =
       Inr (farmer_report selected_crop crop_info inp (predict input_df) y_mean)"
    by blast
  have r: "fst (rainfall crop_info) < snd (rainfall crop_info)"
    using crop_ranges_ordered [OF assms(1)] by simp
  have ex: "list_ex is_rainfall_block bs \<longleftrightarrow> filter is_rainfall_block bs \<noteq> []" for bs
    by (simp add: list_ex_iff filter_empty_conv)
  show ?thesis
    unfolding run using r
    by (simp add: ex filter_rainfall_block rainfall_section_def)
qed

theorem rainfall_block_only_below_minimum_witness:
  "(\<exists>info bundle. lookup_crop ''Corn'' = Inr info \<and> rainfall info = (500, 800)
      \<and> set [''Rainfall_mm'', ''Crop_Type_Corn'']
          \<subseteq> fst ` set (input_data ''Corn''
               \<lparr>Temperature_C = 25, Rainfall_mm = 400, Soil_pH = 6, Soil_Moisture = 0.6,
                Fertilizer_Usage_kg = 100, Pesticide_Usage_kg = 5, Sustainability_Score = 7\<rparr>)
      \<and> farmer_advisor (\<lambda>row. 5) [''Rainfall_mm'', ''Crop_Type_Corn''] 4 ''Corn''
           \<lparr>Temperature_C = 25, Rainfall_mm = 400, Soil_pH = 6, Soil_Moisture = 0.6,
            Fertilizer_Usage_kg = 100, Pesticide_Usage_kg = 5, Sustainability_Score = 7\<rparr>
           = Inr bundle
      \<and> list_ex is_rainfall_block bundle \<and> length (filter is_rainfall_block bundle) = 1)
   \<and> (\<exists>bundle.
        farmer_advisor (\<lambda>row. 5) [''Rainfall_mm'', ''Crop_Type_Corn''] 4 ''Corn''
           \<lparr>Temperature_C = 25, Rainfall_mm = 500, Soil_pH = 6, Soil_Moisture = 0.6,
            Fertilizer_Usage_kg = 100, Pesticide_Usage_kg = 5, Sustainability_Score = 7\<rparr>
           = Inr bundle
      \<and> \<not> list_ex is_rainfall_block bundle \<and> filter is_rainfall_block bundle = [])
   \<and> (\<exists>bundle.
        farmer_advisor (\<lambda>row. 5) [''Rainfall_mm'', ''Crop_Type_Corn''] 4 ''Corn''
           \<lparr>Temperature_C = 25, Rainfall_mm = 2500, Soil_pH = 6, Soil_Moisture = 0.6,
            Fertilizer_Usage_kg = 100, Pesticide_Usage_kg = 5, Sustainability_Score = 7\<rparr>
           = Inr bundle
      \<and> \<not> list_ex is_rainfall_block bundle \<and> filter is_rainfall_block bundle = [])"
proof -
  let ?cols = "[''Rainfall_mm'', ''Crop_Type_Corn'']"
  let ?info = "snd (CROP_CONDITIONS ! 2)"
  have l: "lookup_crop ''Corn'' = Inr ?info" by (rule lookup_crop_Corn)
  have c: "set ?cols \<subseteq> fst ` set (input_data ''Corn'' inp)" for inp
    using input_data_keys [of "''Corn''" inp] by (simp flip: set_map)
  have r: "rainfall ?info = (500, 800)"
    by (simp add: CROP_CONDITIONS_def)
  show ?thesis
    using l c r
      rainfall_block_only_below_minimum [OF l c, where predict = "\<lambda>row. 5" and y_mean = 4 and inp =
        "\<lparr>Temperature_C = 25, Rainfall_mm = 400, Soil_pH = 6, Soil_Moisture = 0.6,
          Fertilizer_Usage_kg = 100, Pesticide_Usage_kg = 5, Sustainability_Score = 7\<rparr>"]
      rainfall_block_only_below_minimum [OF l c, where predict = "\<lambda>row. 5" and y_mean = 4 and inp =
        "\<lparr>Temperature_C = 25, Rainfall_mm = 500, Soil_pH = 6, Soil_Moisture = 0.6,
          Fertilizer_Usage_kg = 100, Pesticide_Usage_kg = 5, Sustainability_Score = 7\<rparr>"]
      rainfall_block_only_below_minimum [OF l c, where predict = "\<lambda>row. 5" and y_mean = 4 and inp =
        "\<lparr>Temperature_C = 25, Rainfall_mm = 2500, Soil_pH = 6, Soil_Moisture = 0.6,
          Fertilizer_Usage_kg = 100, Pesticide_Usage_kg = 5, Sustainability_Score = 7\<rparr>"]
    by simp
qed

text \<open>
  C3. For a supported crop and any submitted values, the rendered page has the growth stage
  block and the nutrient management block, each once; which blocks they are is fixed by the
  crop (its name and its growing period) alone, with no part taken from the values
  submitted or from the prediction.
\<close>

theorem growth_stage_and_nutrient_blocks_always_rendered:
  assumes "lookup_crop selected_crop = Inr crop_info"
    and "set X_columns \<subseteq> fst ` set (input_data selected_crop inp)"
  shows "\<exists>bundle. farmer_advisor predict X_columns y_mean selected_crop inp = Inr bundle
    \<and> filter is_growth_stage bundle = [growth_stage_section selected_crop crop_info]
    \<and> filter is_nutrient_management bundle = [nutrient_section selected_crop]
    \<and> list_ex is_growth_stage bundle \<and> list_ex is_nutrient_management bundle"
proof -
  from farmer_advisor_renders [OF assms]
  obtain input_df where run:
    "farmer_advisor predict X_columns y_mean selected_crop inp =
       Inr (farmer_report selected_crop crop_info inp (predict input_df) y_mean)"
    by blast
  have ex: "list_ex P bs \<longleftrightarrow> filter P bs \<noteq> []" for P and bs :: "block list"
    by (simp add: list_ex_iff filter_empty_conv)
  show ?thesis
    unfolding run
    by (simp add: ex filter_growth_stage filter_nutrient_management)
qed

theorem growth_stage_and_nutrient_blocks_always_rendered_witness:
  "\<exists>info bundle. lookup_crop ''Soybean'' = Inr info
      \<and> set [''Soil_Moisture'', ''Crop_Type_Wheat'']
          \<subseteq> fst ` set (input_data ''Soybean''
               \<lparr>Temperature_C = 0, Rainfall_mm = 3000, Soil_pH = 14, Soil_Moisture = 0,
                Fertilizer_Usage_kg = 500, Pesticide_Usage_kg = 0, Sustainability_Score = 10\<rparr>)
      \<and> farmer_advisor (\<lambda>row. 0) [''Soil_Moisture'', ''Crop_Type_Wheat''] 4 ''Soybean''
           \<lparr>Temperature_C = 0, Rainfall_mm = 3000, Soil_pH = 14, Soil_Moisture = 0,
            Fertilizer_Usage_kg = 500, Pesticide_Usage_kg = 0, Sustainability_Score = 10\<rparr>
           = Inr bundle
      \<and> filter is_growth_stage bundle = [growth_stage_section ''Soybean'' info]
      \<and> filter is_nutrient_management bundle = [nutrient_section ''Soybean'']
      \<and> list_ex is_growth_stage bundle \<and> list_ex is_nutrient_management bundle"
proof -
  let ?cols = "[''Soil_Moisture'', ''Crop_Type_Wheat'']"
  let ?info = "snd (CROP_CONDITIONS ! 3)"
  have l: "lookup_crop ''Soybean'' = Inr ?info" by (rule lookup_crop_Soybean)
  have c: "set ?cols \<subseteq> fst ` set (input_data ''Soybean'' inp)" for inp
    using input_data_keys [of "''Soybean''" inp] by (simp flip: set_map)
  show ?thesis
    using l c
      growth_stage_and_nutrient_blocks_always_rendered [OF l c, where predict = "\<lambda>row. 0"
        and y_mean = 4 and inp =
        "\<lparr>Temperature_C = 0, Rainfall_mm = 3000, Soil_pH = 14, Soil_Moisture = 0,
          Fertilizer_Usage_kg = 500, Pesticide_Usage_kg = 0, Sustainability_Score = 10\<rparr>"]
    by simp
qed

text \<open>
  C5. The numbers in the advice are fixed by the crop name through small-set tests and by
  nothing else, whatever the predictor returns: the acidity block, rendered when the soil
  pH is below the range, gives 2000 kg/ha of lime for Rice and Corn and 1500 kg/ha
  otherwise; the alkaline block, rendered when the soil pH is above the range, gives 300
  kg/ha of sulfur for Rice and Soybean and 400 kg/ha otherwise (so 400 for Wheat); the
  rainfall block gives emitters every 30cm for Rice and Wheat and every 45cm otherwise.
\<close>

theorem doses_and_spacing_fixed_by_crop:
  assumes "lookup_crop selected_crop = Inr crop_info"
    and "set X_columns \<subseteq> fst ` set (input_data selected_crop inp)"
  shows "\<exists>bundle. farmer_advisor predict X_columns y_mean selected_crop inp = Inr bundle
    \<and> filter is_soil_acidity bundle =
        (if Soil_pH inp < fst (soil_ph crop_info) then
           [SoilAcidityProgram (Soil_pH inp) selected_crop
              (if selected_crop \<in> {''Rice'', ''Corn''} then 2000 else 1500)]
         else [])
    \<and> filter is_alkaline_soil bundle =
        (if snd (soil_ph crop_info) < Soil_pH inp then
           [AlkalineSoilProgram (Soil_pH inp) selected_crop
              (if selected_crop \<in> {''Rice'', ''Soybean''} then 300 else 400)]
         else [])
    \<and> filter is_rainfall_block bundle =
        (if Rainfall_mm inp < fst (rainfall crop_info) then
           [InsufficientRainfall (Rainfall_mm inp) selected_crop
              (if selected_crop \<in> {''Rice'', ''Wheat''} then ''emitters every 30cm''
               else ''emitters every 45cm'')
              (drip_pressure selected_crop) (mulch selected_crop)
              (critical_stages selected_crop)]
         else [])"
proof -
  from farmer_advisor_renders [OF assms]
  obtain input_df where run:
    "farmer_advisor predict X_columns y_mean selected_crop inp =
       Inr (farmer_report selected_crop crop_info inp (predict input_df) y_mean)"
    by blast
  have s: "fst (soil_ph crop_info) < snd (soil_ph crop_info)"
    using crop_ranges_ordered [OF assms(1)] by simp
  have acid: "filter is_soil_acidity (soil_ph_section selected_crop crop_info (Soil_pH inp)) =
        (if Soil_pH inp < fst (soil_ph crop_info) then
           [SoilAcidityProgram (Soil_pH inp) selected_crop
              (if selected_crop \<in> {''Rice'', ''Corn''} then 2000 else 1500)]
         else [])"
    by (simp add: soil_ph_section_def lime_dose_def)
  have alk: "filter is_alkaline_soil (soil_ph_section selected_crop crop_info (Soil_pH inp)) =
        (if snd (soil_ph crop_info) < Soil_pH inp then
           [AlkalineSoilProgram (Soil_pH inp) selected_crop
              (if selected_crop \<in> {''Rice'', ''Soybean''} then 300 else 400)]
         else [])"
    using s by (simp add: soil_ph_section_def sulfur_dose_def)
  have rain: "rainfall_section selected_crop crop_info (Rainfall_mm inp) =
        (if Rainfall_mm inp < fst (rainfall crop_info) then
           [InsufficientRainfall (Rainfall_mm inp) selected_crop
              (if selected_crop \<in> {''Rice'', ''Wheat''} then ''emitters every 30cm''
               else ''emitters every 45cm'')
              (drip_pressure selected_crop) (mulch selected_crop)
              (critical_stages selected_crop)]
         else [])"
    by (simp add: rainfall_section_def emitter_spacing_def)
  let ?report = "farmer_report selected_crop crop_info inp (predict input_df) y_mean"
  have "filter is_soil_acidity ?report =
        (if Soil_pH inp < fst (soil_ph crop_info) then
           [SoilAcidityProgram (Soil_pH inp) selected_crop
              (if selected_crop \<in> {''Rice'', ''Corn''} then 2000 else 1500)]
         else [])"
    by (simp only: filter_soil_acidity acid)
  moreover have "filter is_alkaline_soil ?report =
        (if snd (soil_ph crop_info) < Soil_pH inp then
           [AlkalineSoilProgram (Soil_pH inp) selected_crop
              (if selected_crop \<in> {''Rice'', ''Soybean''} then 300 else 400)]
         else [])"
    by (simp only: filter_alkaline_soil alk)
  moreover have "filter is_rainfall_block ?report =
        (if Rainfall_mm inp < fst (rainfall crop_info) then
           [InsufficientRainfall (Rainfall_mm inp) selected_crop
              (if selected_crop \<in> {''Rice'', ''Wheat''} then ''emitters every 30cm''
               else ''emitters every 45cm'')
              (drip_pressure selected_crop) (mulch selected_crop)
              (critical_stages selected_crop)]
         else [])"
    by (simp only: filter_rainfall_block rain)
  ultimately show ?thesis
    using run by blast
qed

theorem doses_and_spacing_fixed_by_crop_witness:
  "(\<exists>info bundle. lookup_crop ''Wheat'' = Inr info \<and> soil_ph info = (6.0, 7.0)
      \<and> set [''Soil_pH'', ''Rainfall_mm'']
          \<subseteq> fst ` set (input_data ''Wheat''
               \<lparr>Temperature_C = 20, Rainfall_mm = 400, Soil_pH = 7.5, Soil_Moisture = 0.6,
                Fertilizer_Usage_kg = 100, Pesticide_Usage_kg = 5, Sustainability_Score = 7\<rparr>)
      \<and> farmer_advisor (\<lambda>row. 5) [''Soil_pH'', ''Rainfall_mm''] 4 ''Wheat''
           \<lparr>Temperature_C = 20, Rainfall_mm = 400, Soil_pH = 7.5, Soil_Moisture = 0.6,
            Fertilizer_Usage_kg = 100, Pesticide_Usage_kg = 5, Sustainability_Score = 7\<rparr>
           = Inr bundle
      \<and> filter is_alkaline_soil bundle = [AlkalineSoilProgram 7.5 ''Wheat'' 400]
      \<and> filter is_soil_acidity bundle = []
      \<and> filter is_rainfall_block bundle =
          [InsufficientRainfall 400 ''Wheat'' ''emitters every 30cm'' (drip_pressure ''Wheat'')
             (mulch ''Wheat'') (critical_stages ''Wheat'')])
   \<and> (\<exists>info bundle. lookup_crop ''Corn'' = Inr info \<and> soil_ph info = (5.8, 7.0)
      \<and> farmer_advisor (\<lambda>row. 9) [''Soil_pH'', ''Rainfall_mm''] 4 ''Corn''
           \<lparr>Temperature_C = 20, Rainfall_mm = 400, Soil_pH = 5, Soil_Moisture = 0.6,
            Fertilizer_Usage_kg = 100, Pesticide_Usage_kg = 5, Sustainability_Score = 7\<rparr>
           = Inr bundle
      \<and> filter is_soil_acidity bundle = [SoilAcidityProgram 5 ''Corn'' 2000]
      \<and> filter is_alkaline_soil bundle = []
      \<and> filter is_rainfall_block bundle =
          [InsufficientRainfall 400 ''Corn'' ''emitters every 45cm'' (drip_pressure ''Corn'')
             (mulch ''Corn'') (critical_stages ''Corn'')])"
proof -
  let ?cols = "[''Soil_pH'', ''Rainfall_mm'']"
  have lw: "lookup_crop ''Wheat'' = Inr (snd (CROP_CONDITIONS ! 1))" by (rule lookup_crop_Wheat)
  have lc: "lookup_crop ''Corn'' = Inr (snd (CROP_CONDITIONS ! 2))" by (rule lookup_crop_Corn)
  have c: "set ?cols \<subseteq> fst ` set (input_data crop inp)" for crop inp
    using input_data_keys [of crop inp] by (simp flip: set_map)
  have r: "soil_ph (snd (CROP_CONDITIONS ! 1)) = (6.0, 7.0)"
    "rainfall (snd (CROP_CONDITIONS ! 1)) = (600, 1100)"
    "soil_ph (snd (CROP_CONDITIONS ! 2)) = (5.8, 7.0)"
    "rainfall (snd (CROP_CONDITIONS ! 2)) = (500, 800)"
    by (simp_all add: CROP_CONDITIONS_def)
  show ?thesis
    using lw lc c r
      doses_and_spacing_fixed_by_crop [OF lw c, where predict = "\<lambda>row. 5" and y_mean = 4 and inp =
        "\<lparr>Temperature_C = 20, Rainfall_mm = 400, Soil_pH = 7.5, Soil_Moisture = 0.6,
          Fertilizer_Usage_kg = 100, Pesticide_Usage_kg = 5, Sustainability_Score = 7\<rparr>"]
      doses_and_spacing_fixed_by_crop [OF lc c, where predict = "\<lambda>row. 9" and y_mean = 4 and inp =
        "\<lparr>Temperature_C = 20, Rainfall_mm = 400, Soil_pH = 5, Soil_Moisture = 0.6,
          Fertilizer_Usage_kg = 100, Pesticide_Usage_kg = 5, Sustainability_Score = 7\<rparr>"]
    by simp blast
qed

text \<open>
  C7. For each of the four supported crops the lookup returns an entry of the table, and in
  it every range (temperature, soil pH, rainfall, soil moisture) has its minimum strictly
  below its maximum, the soil pH range lies within 0 and 14, and the soil moisture range
  lies within 0 and 1.
\<close>

theorem crop_profile_range_invariants:
  assumes "crop \<in> set [''Rice'', ''Wheat'', ''Corn'', ''Soybean'']"
  shows "\<exists>info. lookup_crop crop = Inr info
    \<and> fst (temp_range info) < snd (temp_range info)
    \<and> fst (soil_ph info) < snd (soil_ph info)
    \<and> fst (rainfall info) < snd (rainfall info)
    \<and> fst (soil_moisture info) < snd (soil_moisture info)
    \<and> 0 \<le> fst (soil_ph info) \<and> snd (soil_ph info) \<le> 14
    \<and> 0 \<le> fst (soil_moisture info) \<and> snd (soil_moisture info) \<le> 1"
proof -
  from assms have "crop \<in> set crop_keys" by (simp add: crop_keys_eq)
  then show ?thesis
    by (cases rule: crop_keys_cases)
       (simp_all add: lookup_crop_Rice lookup_crop_Wheat lookup_crop_Corn lookup_crop_Soybean
          CROP_CONDITIONS_def)
qed

theorem crop_profile_range_invariants_witness:
  "''Corn'' \<in> set [''Rice'', ''Wheat'', ''Corn'', ''Soybean'']
   \<and> (\<exists>info. lookup_crop ''Corn'' = Inr info
    \<and> fst (temp_range info) < snd (temp_range info)
    \<and> fst (soil_ph info) < snd (soil_ph info)
    \<and> fst (rainfall info) < snd (rainfall info)
    \<and> fst (soil_moisture info) < snd (soil_moisture info)
    \<and> 0 \<le> fst (soil_ph info) \<and> snd (soil_ph info) \<le> 14
    \<and> 0 \<le> fst (soil_moisture info) \<and> snd (soil_moisture info) \<le> 1)"
proof -
  have m: "''Corn'' \<in> set [''Rice'', ''Wheat'', ''Corn'', ''Soybean'']" by simp
  show ?thesis using m crop_profile_range_invariants [OF m] by blast
qed

section \<open>The feature row and the lookup\<close>

text \<open>
  C4. For every selection among the four supported crops, the dict built from the form has
  the indicator of the selected crop at 1 and the indicators of the other three crops at 0,
  and so has the row handed to the predictor, whenever the training columns are columns of
  the form and have the four crop indicator columns among them: among the four indicators
  of the row exactly one, the one of the selected crop, is 1.
\<close>

theorem crop_indicators_one_hot:
  assumes "selected_crop \<in> set [''Rice'', ''Wheat'', ''Corn'', ''Soybean'']"
    and "set X_columns \<subseteq> fst ` set (input_data selected_crop inp)"
    and "crop_column ` set [''Rice'', ''Wheat'', ''Corn'', ''Soybean''] \<subseteq> set X_columns"
  shows "\<exists>crop_info input_df.
      lookup_crop selected_crop = Inr crop_info
    \<and> select_columns (input_data selected_crop inp) X_columns = Inr input_df
    \<and> farmer_advisor predict X_columns y_mean selected_crop inp =
        Inr (farmer_report selected_crop crop_info inp (predict input_df) y_mean)
    \<and> map fst input_df = X_columns
    \<and> (\<forall>crop \<in> set [''Rice'', ''Wheat'', ''Corn'', ''Soybean''].
          map_of (input_data selected_crop inp) (crop_column crop) =
            Some (PyInt (if crop = selected_crop then 1 else 0))
        \<and> map_of input_df (crop_column crop) =
            Some (PyInt (if crop = selected_crop then 1 else 0)))
    \<and> [crop \<leftarrow> [''Rice'', ''Wheat'', ''Corn'', ''Soybean''].
          map_of input_df (crop_column crop) = Some (PyInt 1)] = [selected_crop]"
proof -
  let ?d = "input_data selected_crop inp"
  from assms(1) have key: "selected_crop \<in> set crop_keys" by (simp add: crop_keys_eq)
  then obtain crop_info where l: "lookup_crop selected_crop = Inr crop_info"
    using lookup_crop_supported by blast
  from select_columns_total [OF assms(2)]
  obtain input_df where sel: "select_columns ?d X_columns = Inr input_df"
    and cols: "map fst input_df = X_columns"
    and same: "\<forall>c \<in> set X_columns. map_of input_df c = map_of ?d c"
    by blast
  have run: "farmer_advisor predict X_columns y_mean selected_crop inp =
      Inr (farmer_report selected_crop crop_info inp (predict input_df) y_mean)"
    using l sel by (simp add: farmer_advisor_def)
  have dict: "map_of ?d (crop_column crop) = Some (PyInt (if crop = selected_crop then 1 else 0))"
    if "crop \<in> set [''Rice'', ''Wheat'', ''Corn'', ''Soybean'']" for crop
    using that input_data_crop [of crop selected_crop inp] by (simp add: crop_keys_eq)
  have row: "map_of input_df (crop_column crop) =
      Some (PyInt (if crop = selected_crop then 1 else 0))"
    if "crop \<in> set [''Rice'', ''Wheat'', ''Corn'', ''Soybean'']" for crop
  proof -
    from that assms(3) have "crop_column crop \<in> set X_columns" by blast
    with same dict [OF that] show ?thesis by simp
  qed
  have one: "[crop \<leftarrow> [''Rice'', ''Wheat'', ''Corn'', ''Soybean''].
      map_of input_df (crop_column crop) = Some (PyInt 1)] = [selected_crop]"
    using key
    by (cases rule: crop_keys_cases) (simp_all add: row)
  show ?thesis
    using l sel run cols dict row one by blast
qed

theorem crop_indicators_one_hot_witness:
  "''Corn'' \<in> set [''Rice'', ''Wheat'', ''Corn'', ''Soybean'']
   \<and> set [''Soil_pH'', ''Crop_Type_Soybean'', ''Crop_Type_Corn'', ''Temperature_C'',
          ''Crop_Type_Rice'', ''Crop_Type_Wheat'']
        \<subseteq> fst ` set (input_data ''Corn''
             \<lparr>Temperature_C = 25, Rainfall_mm = 600, Soil_pH = 6, Soil_Moisture = 0.6,
              Fertilizer_Usage_kg = 100, Pesticide_Usage_kg = 5, Sustainability_Score = 7\<rparr>)
   \<and> crop_column ` set [''Rice'', ''Wheat'', ''Corn'', ''Soybean'']
        \<subseteq> set [''Soil_pH'', ''Crop_Type_Soybean'', ''Crop_Type_Corn'', ''Temperature_C'',
                ''Crop_Type_Rice'', ''Crop_Type_Wheat'']
   \<and> (\<exists>input_df.
        select_columns (input_data ''Corn''
             \<lparr>Temperature_C = 25, Rainfall_mm = 600, Soil_pH = 6, Soil_Moisture = 0.6,
              Fertilizer_Usage_kg = 100, Pesticide_Usage_kg = 5, Sustainability_Score = 7\<rparr>)
          [''Soil_pH'', ''Crop_Type_Soybean'', ''Crop_Type_Corn'', ''Temperature_C'',
           ''Crop_Type_Rice'', ''Crop_Type_Wheat''] = Inr input_df
      \<and> map_of input_df ''Crop_Type_Corn'' = Some (PyInt 1)
      \<and> map_of input_df ''Crop_Type_Rice'' = Some (PyInt 0)
      \<and> map_of input_df ''Crop_Type_Wheat'' = Some (PyInt 0)
      \<and> map_of input_df ''Crop_Type_Soybean'' = Some (PyInt 0)
      \<and> [crop \<leftarrow> [''Rice'', ''Wheat'', ''Corn'', ''Soybean''].
            map_of input_df (crop_column crop) = Some (PyInt 1)] = [''Corn''])"
proof -
  let ?cols = "[''Soil_pH'', ''Crop_Type_Soybean'', ''Crop_Type_Corn'', ''Temperature_C'',
                ''Crop_Type_Rice'', ''Crop_Type_Wheat'']"
  let ?inp = "\<lparr>Temperature_C = 25, Rainfall_mm = 600, Soil_pH = 6, Soil_Moisture = 0.6,
              Fertilizer_Usage_kg = 100, Pesticide_Usage_kg = 5, Sustainability_Score = 7\<rparr>"
  have m: "''Corn'' \<in> set [''Rice'', ''Wheat'', ''Corn'', ''Soybean'']" by simp
  have c: "set ?cols \<subseteq> fst ` set (input_data ''Corn'' ?inp)"
    using input_data_keys [of "''Corn''" ?inp] by (simp flip: set_map)
  have k: "crop_column ` set [''Rice'', ''Wheat'', ''Corn'', ''Soybean''] \<subseteq> set ?cols"
    by (simp add: crop_column_def)
  from crop_indicators_one_hot [OF m c k, of "\<lambda>row. 0" 0]
  obtain input_df where sel: "select_columns (input_data ''Corn'' ?inp) ?cols = Inr input_df"
    and ind: "\<forall>crop \<in> set [''Rice'', ''Wheat'', ''Corn'', ''Soybean''].
          map_of input_df (crop_column crop) = Some (PyInt (if crop = ''Corn'' then 1 else 0))"
    and one: "[crop \<leftarrow> [''Rice'', ''Wheat'', ''Corn'', ''Soybean''].
            map_of input_df (crop_column crop) = Some (PyInt 1)] = [''Corn'']"
    by blast
  from ind have "map_of input_df ''Crop_Type_Corn'' = Some (PyInt 1)"
    "map_of input_df ''Crop_Type_Rice'' = Some (PyInt 0)"
    "map_of input_df ''Crop_Type_Wheat'' = Some (PyInt 0)"
    "map_of input_df ''Crop_Type_Soybean'' = Some (PyInt 0)"
    by (simp_all add: crop_column_def)
  with m c k sel one show ?thesis by blast
qed

text \<open>
  C6. Looking up a crop name that is not one of Rice, Wheat, Corn and Soybean fails with the
  error of a missing key and returns no entry, and the page fails with it; for the four
  names the lookup returns the entry of the table, and the page then renders its report as
  soon as the feature row is built: choosing the blocks never fails.
\<close>

theorem lookup_fails_only_for_unknown_crop:
  "(selected_crop \<notin> set [''Rice'', ''Wheat'', ''Corn'', ''Soybean''] \<longrightarrow>
      lookup_crop selected_crop = Inl KeyError
    \<and> (\<forall>crop_info. lookup_crop selected_crop \<noteq> Inr crop_info)
    \<and> farmer_advisor predict X_columns y_mean selected_crop inp = Inl KeyError)
   \<and> (selected_crop \<in> set [''Rice'', ''Wheat'', ''Corn'', ''Soybean''] \<longrightarrow>
      (\<exists>crop_info. lookup_crop selected_crop = Inr crop_info
        \<and> (selected_crop, crop_info) \<in> set CROP_CONDITIONS
        \<and> (\<forall>input_df. select_columns (input_data selected_crop inp) X_columns = Inr input_df \<longrightarrow>
              farmer_advisor predict X_columns y_mean selected_crop inp =
                Inr (farmer_report selected_crop crop_info inp (predict input_df) y_mean))))"
proof (intro conjI impI)
  assume "selected_crop \<notin> set [''Rice'', ''Wheat'', ''Corn'', ''Soybean'']"
  then have l: "lookup_crop selected_crop = Inl KeyError"
    using lookup_crop_unknown [of selected_crop] by (simp add: crop_keys_eq)
  then show "lookup_crop selected_crop = Inl KeyError"
    and "\<forall>crop_info. lookup_crop selected_crop \<noteq> Inr crop_info"
    and "farmer_advisor predict X_columns y_mean selected_crop inp = Inl KeyError"
    by (simp_all add: farmer_advisor_def)
next
  assume "selected_crop \<in> set [''Rice'', ''Wheat'', ''Corn'', ''Soybean'']"
  then have "selected_crop \<in> set crop_keys" by (simp add: crop_keys_eq)
  then obtain crop_info where l: "lookup_crop selected_crop = Inr crop_info"
    using lookup_crop_supported by blast
  then have "(selected_crop, crop_info) \<in> set CROP_CONDITIONS"
    by (rule lookup_crop_table)
  moreover have "\<forall>input_df. select_columns (input_data selected_crop inp) X_columns = Inr input_df \<longrightarrow>
      farmer_advisor predict X_columns y_mean selected_crop inp =
        Inr (farmer_report selected_crop crop_info inp (predict input_df) y_mean)"
    using l by (simp add: farmer_advisor_def)
  ultimately show "\<exists>crop_info. lookup_crop selected_crop = Inr crop_info
        \<and> (selected_crop, crop_info) \<in> set CROP_CONDITIONS
        \<and> (\<forall>input_df. select_columns (input_data selected_crop inp) X_columns = Inr input_df \<longrightarrow>
              farmer_advisor predict X_columns y_mean selected_crop inp =
                Inr (farmer_report selected_crop crop_info inp (predict input_df) y_mean))"
    using l by blast
qed

theorem lookup_fails_only_for_unknown_crop_witness:
  "(''Barley'' \<notin> set [''Rice'', ''Wheat'', ''Corn'', ''Soybean'']
    \<and> lookup_crop ''Barley'' = Inl KeyError
    \<and> farmer_advisor (\<lambda>row. 5) [''Soil_pH''] 4 ''Barley''
         \<lparr>Temperature_C = 25, Rainfall_mm = 600, Soil_pH = 6, Soil_Moisture = 0.6,
          Fertilizer_Usage_kg = 100, Pesticide_Usage_kg = 5, Sustainability_Score = 7\<rparr>
        = Inl KeyError)
   \<and> (''Wheat'' \<in> set [''Rice'', ''Wheat'', ''Corn'', ''Soybean'']
    \<and> (\<exists>crop_info. lookup_crop ''Wheat'' = Inr crop_info
        \<and> (''Wheat'', crop_info) \<in> set CROP_CONDITIONS
        \<and> select_columns (input_data ''Wheat''
             \<lparr>Temperature_C = 25, Rainfall_mm = 600, Soil_pH = 6, Soil_Moisture = 0.6,
              Fertilizer_Usage_kg = 100, Pesticide_Usage_kg = 5, Sustainability_Score = 7\<rparr>)
             [''Soil_pH''] = Inr [(''Soil_pH'', PyFloat 6)]
        \<and> farmer_advisor (\<lambda>row. 5) [''Soil_pH''] 4 ''Wheat''
             \<lparr>Temperature_C = 25, Rainfall_mm = 600, Soil_pH = 6, Soil_Moisture = 0.6,
              Fertilizer_Usage_kg = 100, Pesticide_Usage_kg = 5, Sustainability_Score = 7\<rparr>
            = Inr (farmer_report ''Wheat'' crop_info
                \<lparr>Temperature_C = 25, Rainfall_mm = 600, Soil_pH = 6, Soil_Moisture = 0.6,
                 Fertilizer_Usage_kg = 100, Pesticide_Usage_kg = 5, Sustainability_Score = 7\<rparr>
                5 4)))"
proof -
  let ?inp = "\<lparr>Temperature_C = 25, Rainfall_mm = 600, Soil_pH = 6, Soil_Moisture = 0.6,
              Fertilizer_Usage_kg = 100, Pesticide_Usage_kg = 5, Sustainability_Score = 7\<rparr>"
  have b: "''Barley'' \<notin> set [''Rice'', ''Wheat'', ''Corn'', ''Soybean'']" by simp
  have w: "''Wheat'' \<in> set [''Rice'', ''Wheat'', ''Corn'', ''Soybean'']" by simp
  have s: "select_columns (input_data ''Wheat'' ?inp) [''Soil_pH''] = Inr [(''Soil_pH'', PyFloat 6)]"
    by (simp add: input_data_def crop_keys_eq base_input_data_def crop_column_def)
  show ?thesis
    using b w s
      lookup_fails_only_for_unknown_crop [of "''Barley''" "\<lambda>row. 5" "[''Soil_pH'']" 4 ?inp]
      lookup_fails_only_for_unknown_crop [of "''Wheat''" "\<lambda>row. 5" "[''Soil_pH'']" 4 ?inp]
    by blast
qed

section \<open>The prediction against the mean of the training target\<close>

lemma market_researcher_renders:
  assumes "set X_columns \<subseteq> fst ` set
    (dict_merge (dict_merge (dict_merge price_data market_data) economic_data) other_data)"
  shows "\<exists>input_df.
      select_columns
        (dict_merge (dict_merge (dict_merge price_data market_data) economic_data) other_data)
        X_columns = Inr input_df
    \<and> market_researcher predict X_columns X_mean y_mean price_data market_data economic_data
        other_data =
        Inr (market_report (predict input_df) y_mean X_mean price_data market_data economic_data)"
proof -
  from select_columns_total [OF assms]
  obtain input_df where "select_columns
        (dict_merge (dict_merge (dict_merge price_data market_data) economic_data) other_data)
        X_columns = Inr input_df"
    by blast
  then show ?thesis by (simp add: market_researcher_def)
qed

lemma market_researcher_Inr:
  assumes "market_researcher predict X_columns X_mean y_mean price_data market_data economic_data
        other_data = Inr bundle"
  shows "\<exists>input_df.
      select_columns
        (dict_merge (dict_merge (dict_merge price_data market_data) economic_data) other_data)
        X_columns = Inr input_df
    \<and> bundle =
        market_report (predict input_df) y_mean X_mean price_data market_data economic_data"
  using assms by (auto simp: market_researcher_def split: sum.splits)

lemma farmer_report_after_prediction:
  "drop 2 (farmer_report c info inp p m) =
     temperature_section c info (Temperature_C inp)
     @ soil_ph_section c info (Soil_pH inp)
     @ rainfall_section c info (Rainfall_mm inp)
     @ [growth_stage_section c info, nutrient_section c]"
  by (simp add: farmer_report_def)

lemma market_report_after_prediction:
  "drop 2 (market_report p m X_mean pd md ed) =
     risk_assessment X_mean pd md ed @ [StrategicActionPlan]"
  by (simp add: market_report_def)

text \<open>
  C8. The message variant of a prediction depends only on the side of the mean of the
  training target on which the prediction stands: for two predictions on the same side
  (below, at, above), whatever else differs between the two runs, the farmer page carries
  the same assessment and the market page the same banner. Beyond that comparison the
  magnitude of the prediction is only shown, in the two leading blocks of each page: the
  farmer page shows the prediction, and the market page shows the prediction and the score
  \<open>prediction / y.mean() * 100\<close>. Every block after them is the same for any two
  predictions and means.
\<close>

theorem message_variant_by_side_magnitude_only_shown:
  assumes "side_of_mean prediction1 y_mean1 = side_of_mean prediction2 y_mean2"
  shows "List.map_filter message_variant
           (farmer_report crop1 crop_info1 inp1 prediction1 y_mean1) =
         List.map_filter message_variant
           (farmer_report crop2 crop_info2 inp2 prediction2 y_mean2)
    \<and> List.map_filter banner_variant
           (market_report prediction1 y_mean1 X_mean1 price1 market1 economic1) =
         List.map_filter banner_variant
           (market_report prediction2 y_mean2 X_mean2 price2 market2 economic2)
    \<and> take 2 (farmer_report crop1 crop_info1 inp1 prediction1 y_mean1) =
         [PredictedYield crop1 prediction1,
          OverallCropAssessment crop1 prediction1 (overall_assessment prediction1 y_mean1)]
    \<and> take 2 (market_report prediction1 y_mean1 X_mean1 price1 market1 economic1) =
         [PredictedMarketOutcome prediction1,
          MarketPosition (market_position prediction1 y_mean1)
            (if y_mean1 = 0 then None else Some (prediction1 / y_mean1 * 100))]
    \<and> drop 2 (farmer_report crop1 crop_info1 inp1 prediction1 y_mean1) =
         drop 2 (farmer_report crop1 crop_info1 inp1 prediction2 y_mean2)
    \<and> drop 2 (market_report prediction1 y_mean1 X_mean1 price1 market1 economic1) =
         drop 2 (market_report prediction2 y_mean2 X_mean1 price1 market1 economic1)"
proof -
  have "overall_assessment prediction1 y_mean1 = overall_assessment prediction2 y_mean2"
    using assms by (simp add: side_of_mean_def overall_assessment_def split: if_splits)
  moreover have "market_position prediction1 y_mean1 = market_position prediction2 y_mean2"
    using assms by (simp add: side_of_mean_def market_position_def split: if_splits)
  moreover have "take 2 (farmer_report crop1 crop_info1 inp1 prediction1 y_mean1) =
         [PredictedYield crop1 prediction1,
          OverallCropAssessment crop1 prediction1 (overall_assessment prediction1 y_mean1)]"
    by (simp add: farmer_report_def)
  moreover have "take 2 (market_report prediction1 y_mean1 X_mean1 price1 market1 economic1) =
         [PredictedMarketOutcome prediction1,
          MarketPosition (market_position prediction1 y_mean1)
            (if y_mean1 = 0 then None else Some (prediction1 / y_mean1 * 100))]"
    by (simp add: market_report_def market_score_def)
  ultimately show ?thesis
    by (simp only: variants_farmer_report variants_market_report
        farmer_report_after_prediction market_report_after_prediction simp_thms)
qed

theorem message_variant_by_side_magnitude_only_shown_witness:
  "side_of_mean 7 5 = side_of_mean 120 100
   \<and> List.map_filter message_variant
        (farmer_report ''Rice'' (snd (CROP_CONDITIONS ! 0))
           \<lparr>Temperature_C = 15, Rainfall_mm = 1200, Soil_pH = 5, Soil_Moisture = 0.7,
            Fertilizer_Usage_kg = 100, Pesticide_Usage_kg = 5, Sustainability_Score = 7\<rparr> 7 5) =
      List.map_filter message_variant
        (farmer_report ''Corn'' (snd (CROP_CONDITIONS ! 2))
           \<lparr>Temperature_C = 40, Rainfall_mm = 100, Soil_pH = 8, Soil_Moisture = 0.2,
            Fertilizer_Usage_kg = 10, Pesticide_Usage_kg = 1, Sustainability_Score = 2\<rparr> 120 100)
   \<and> List.map_filter banner_variant
        (market_report 7 5 (\<lambda>col. 10) [(''Price'', 3)] [] []) =
      List.map_filter banner_variant
        (market_report 120 100 (\<lambda>col. 0) [] [(''Demand'', 4)] [])"
  using message_variant_by_side_magnitude_only_shown [of 7 5 120 100
      "''Rice''" "snd (CROP_CONDITIONS ! 0)"
      "\<lparr>Temperature_C = 15, Rainfall_mm = 1200, Soil_pH = 5, Soil_Moisture = 0.7,
        Fertilizer_Usage_kg = 100, Pesticide_Usage_kg = 5, Sustainability_Score = 7\<rparr>"
      "''Corn''" "snd (CROP_CONDITIONS ! 2)"
      "\<lparr>Temperature_C = 40, Rainfall_mm = 100, Soil_pH = 8, Soil_Moisture = 0.2,
        Fertilizer_Usage_kg = 10, Pesticide_Usage_kg = 1, Sustainability_Score = 2\<rparr>"
      "\<lambda>col. 10" "[(''Price'', 3)]" "[]" "[]" "\<lambda>col. 0" "[]" "[(''Demand'', 4)]" "[]"]
  by (simp add: side_of_mean_def)

text \<open>
  The magnitude of the prediction does reach the market page beyond the comparison: at a
  mean of 5 the predictions 6 and 7 stand on the same side and get the same banner, and
  the page shows a score of 120 for the one and of 140 for the other.
\<close>

theorem market_score_shows_magnitude:
  "side_of_mean 6 5 = side_of_mean 7 5
   \<and> market_report 6 5 (\<lambda>col. 0) [] [] [] =
       [PredictedMarketOutcome 6, MarketPosition GrowthStrategy (Some 120), StrategicActionPlan]
   \<and> market_report 7 5 (\<lambda>col. 0) [] [] [] =
       [PredictedMarketOutcome 7, MarketPosition GrowthStrategy (Some 140), StrategicActionPlan]
   \<and> market_report 6 5 (\<lambda>col. 0) [] [] [] \<noteq> market_report 7 5 (\<lambda>col. 0) [] [] []"
  by (simp add: side_of_mean_def market_report_def market_position_def market_score_def
      risk_assessment_def risk_detected_def risk_count_def)

text \<open>
  C9. At a prediction equal to the mean of the training target the two pages go opposite
  ways: the farmer page, which tests \<open>prediction > y.mean()\<close>, reports some areas that need
  attention; the market page, which tests \<open>prediction < y.mean()\<close>, shows the banner of the
  growth strategy, the one of a prediction above the mean.
\<close>

theorem opposite_variants_at_the_mean:
  "List.map_filter message_variant (farmer_report crop crop_info inp y_mean y_mean) =
     [SomeAreasThatNeedAttention]
   \<and> List.map_filter banner_variant
       (market_report y_mean y_mean X_mean price_data market_data economic_data) =
     [GrowthStrategy]
   \<and> (y_mean < prediction \<longrightarrow>
        List.map_filter message_variant (farmer_report crop crop_info inp prediction y_mean) =
          [ExcellentGrowingConditions]
      \<and> List.map_filter banner_variant
          (market_report prediction y_mean X_mean price_data market_data economic_data) =
          [GrowthStrategy])
   \<and> (prediction < y_mean \<longrightarrow>
        List.map_filter message_variant (farmer_report crop crop_info inp prediction y_mean) =
          [SomeAreasThatNeedAttention]
      \<and> List.map_filter banner_variant
          (market_report prediction y_mean X_mean price_data market_data economic_data) =
          [ShortTermStrategy])"
  by (simp add: variants_farmer_report variants_market_report overall_assessment_def
      market_position_def)

theorem opposite_variants_at_the_mean_witness:
  "List.map_filter message_variant
       (farmer_report ''Rice'' (snd (CROP_CONDITIONS ! 0))
           \<lparr>Temperature_C = 25, Rainfall_mm = 1200, Soil_pH = 6, Soil_Moisture = 0.7,
            Fertilizer_Usage_kg = 100, Pesticide_Usage_kg = 5, Sustainability_Score = 7\<rparr> 5 5) =
     [SomeAreasThatNeedAttention]
   \<and> List.map_filter banner_variant (market_report 5 5 (\<lambda>col. 10) [(''Price'', 3)] [] []) =
     [GrowthStrategy]
   \<and> (5::real) < 6
   \<and> List.map_filter message_variant
       (farmer_report ''Rice'' (snd (CROP_CONDITIONS ! 0))
           \<lparr>Temperature_C = 25, Rainfall_mm = 1200, Soil_pH = 6, Soil_Moisture = 0.7,
            Fertilizer_Usage_kg = 100, Pesticide_Usage_kg = 5, Sustainability_Score = 7\<rparr> 6 5) =
     [ExcellentGrowingConditions]
   \<and> (4::real) < 5
   \<and> List.map_filter banner_variant (market_report 4 5 (\<lambda>col. 10) [(''Price'', 3)] [] []) =
     [ShortTermStrategy]"
  using opposite_variants_at_the_mean [of "''Rice''" "snd (CROP_CONDITIONS ! 0)"
      "\<lparr>Temperature_C = 25, Rainfall_mm = 1200, Soil_pH = 6, Soil_Moisture = 0.7,
        Fertilizer_Usage_kg = 100, Pesticide_Usage_kg = 5, Sustainability_Score = 7\<rparr>"
      5 "\<lambda>col. 10" "[(''Price'', 3)]" "[]" "[]" 6]
    opposite_variants_at_the_mean [of "''Rice''" "snd (CROP_CONDITIONS ! 0)"
      "\<lparr>Temperature_C = 25, Rainfall_mm = 1200, Soil_pH = 6, Soil_Moisture = 0.7,
        Fertilizer_Usage_kg = 100, Pesticide_Usage_kg = 5, Sustainability_Score = 7\<rparr>"
      5 "\<lambda>col. 10" "[(''Price'', 3)]" "[]" "[]" 4]
  by simp

section \<open>The risk alerts of the market page\<close>

lemma risk_alerts_rendered:
  "HighPriceRisk \<in> set (market_report p m X_mean pd md ed) \<longleftrightarrow> risk_detected X_mean pd"
  "MarketRiskAlert \<in> set (market_report p m X_mean pd md ed) \<longleftrightarrow> risk_detected X_mean md"
  "EconomicRiskFactors \<in> set (market_report p m X_mean pd md ed) \<longleftrightarrow> risk_detected X_mean ed"
  by (simp_all add: market_report_def risk_assessment_def)

text \<open>
  C10. On the market page each of the three risk alerts (price, market, economic) is
  rendered if and only if strictly more than half of the values of its group of columns
  are strictly below the mean of their training column. In particular an alert is not
  rendered when exactly half of the values are below, nor when the group is empty.
\<close>

theorem risk_alert_iff_more_than_half_below_mean:
  assumes "set X_columns \<subseteq> fst ` set
    (dict_merge (dict_merge (dict_merge price_data market_data) economic_data) other_data)"
  shows "\<exists>bundle.
      market_researcher predict X_columns X_mean y_mean price_data market_data economic_data
        other_data = Inr bundle
    \<and> (HighPriceRisk \<in> set bundle \<longleftrightarrow>
          length price_data < 2 * length (values_below_mean X_mean price_data))
    \<and> (MarketRiskAlert \<in> set bundle \<longleftrightarrow>
          length market_data < 2 * length (values_below_mean X_mean market_data))
    \<and> (EconomicRiskFactors \<in> set bundle \<longleftrightarrow>
          length economic_data < 2 * length (values_below_mean X_mean economic_data))
    \<and> (2 * length (values_below_mean X_mean price_data) = length price_data \<longrightarrow>
          HighPriceRisk \<notin> set bundle)
    \<and> (2 * length (values_below_mean X_mean market_data) = length market_data \<longrightarrow>
          MarketRiskAlert \<notin> set bundle)
    \<and> (2 * length (values_below_mean X_mean economic_data) = length economic_data \<longrightarrow>
          EconomicRiskFactors \<notin> set bundle)
    \<and> (price_data = [] \<longrightarrow> HighPriceRisk \<notin> set bundle)
    \<and> (market_data = [] \<longrightarrow> MarketRiskAlert \<notin> set bundle)
    \<and> (economic_data = [] \<longrightarrow> EconomicRiskFactors \<notin> set bundle)"
proof -
  from market_researcher_renders [OF assms]
  obtain input_df where run:
    "market_researcher predict X_columns X_mean y_mean price_data market_data economic_data
        other_data =
       Inr (market_report (predict input_df) y_mean X_mean price_data market_data economic_data)"
    by blast
  have empty: "values_below_mean X_mean [] = []"
    by (simp add: values_below_mean_def)
  show ?thesis
    unfolding run
    by (auto simp add: risk_alerts_rendered risk_detected_iff empty)
qed

theorem risk_alert_iff_more_than_half_below_mean_witness:
  "set [''Price'', ''Demand'', ''Growth'', ''Cost'', ''Region'']
     \<subseteq> fst ` set (dict_merge (dict_merge (dict_merge
          [(''Price'', 1 :: real), (''Cost'', 2), (''Fuel_Price'', 3)]
          [(''Demand'', 1), (''Supply'', 9)])
          [])
          [(''Region'', 0), (''Growth'', 4)])
   \<and> (\<exists>bundle.
        market_researcher (\<lambda>row. 50) [''Price'', ''Demand'', ''Growth'', ''Cost'', ''Region'']
          (\<lambda>col. 5) 40
          [(''Price'', 1), (''Cost'', 2), (''Fuel_Price'', 3)]
          [(''Demand'', 1), (''Supply'', 9)]
          []
          [(''Region'', 0), (''Growth'', 4)] = Inr bundle
      \<and> HighPriceRisk \<in> set bundle
      \<and> MarketRiskAlert \<notin> set bundle
      \<and> EconomicRiskFactors \<notin> set bundle)"
proof -
  let ?pd = "[(''Price'', 1), (''Cost'', 2), (''Fuel_Price'', 3)] :: (string \<times> real) list"
  let ?md = "[(''Demand'', 1), (''Supply'', 9)] :: (string \<times> real) list"
  let ?ed = "[] :: (string \<times> real) list"
  let ?od = "[(''Region'', 0), (''Growth'', 4)] :: (string \<times> real) list"
  let ?cols = "[''Price'', ''Demand'', ''Growth'', ''Cost'', ''Region'']"
  have s: "set ?cols \<subseteq> fst ` set (dict_merge (dict_merge (dict_merge ?pd ?md) ?ed) ?od)"
    by (simp add: dict_merge_def)
  have v: "values_below_mean (\<lambda>col. 5) ?pd = ?pd"
    "values_below_mean (\<lambda>col. 5) ?md = [(''Demand'', 1)]"
    by (simp_all add: values_below_mean_def)
  from risk_alert_iff_more_than_half_below_mean [OF s, of "\<lambda>row. 50" "\<lambda>col. 5" 40]
  obtain alerts where run: "market_researcher (\<lambda>row. 50) ?cols (\<lambda>col. 5) 40 ?pd ?md ?ed ?od
      = Inr alerts"
    and p: "HighPriceRisk \<in> set alerts \<longleftrightarrow>
      length ?pd < 2 * length (values_below_mean (\<lambda>col. 5) ?pd)"
    and m: "2 * length (values_below_mean (\<lambda>col. 5) ?md) = length ?md \<longrightarrow>
      MarketRiskAlert \<notin> set alerts"
    and e: "?ed = [] \<longrightarrow> EconomicRiskFactors \<notin> set alerts"
    by blast
  from p v have "HighPriceRisk \<in> set alerts" by simp
  moreover from m v have "MarketRiskAlert \<notin> set alerts" by simp
  moreover from e have "EconomicRiskFactors \<notin> set alerts" by simp
  ultimately show ?thesis using s run by blast
qed

end
